theory Spec2Isabelle
  imports Main "HOL-Library.Word"
begin

section \<open>The send-many command (src/commands/send-many.ts)\<close>

subsection \<open>Data\<close>

text \<open>The enum \<open>ChainID\<close> that the command compares \<open>network.chainId\<close> with.\<close>

datatype ChainID = Testnet | Mainnet

text \<open>
  A network object. The command reads \<open>chainId\<close> and assigns \<open>coreApiUrl\<close>; whatever else
  the library's network classes carry stays in the record's extension.
\<close>

record StacksNetwork =
  chainId :: ChainID
  coreApiUrl :: string

text \<open>\<open>type NetworkString = 'mocknet' | 'mainnet' | 'testnet'\<close>, the values the option
  parser admits for \<open>--network\<close>.\<close>

datatype NetworkString = mocknet | mainnet | testnet

text \<open>A thrown \<open>Error\<close> with its message.\<close>

datatype error = Error string

text \<open>
  One recipient as the callback of \<open>argv.map\<close> returns it. The amount is the second element
  of the array destructuring, which is \<open>undefined\<close> (\<open>None\<close>) when the token has no comma.
\<close>

record Recipient =
  address :: string
  amount :: "string option"

text \<open>The parsed flags of the command (\<open>static flags\<close>, without \<open>help\<close>).\<close>

record flags =
  privateKey :: string
  broadcast :: bool
  network :: NetworkString
  nodeUrl :: "string option"
  verbose :: bool
  contractAddress :: "string option"
  nonce :: "int option"

text \<open>
  The options object handed to \<open>sendMany\<close>. The field \<open>txNetwork\<close> is the key \<open>network\<close>
  of the object literal; \<open>txNonce\<close> is the key \<open>nonce\<close>, \<open>None\<close> when the literal has no
  such key.
\<close>

record 'm SendManyOptions =
  recipients :: "Recipient list"
  txNetwork :: "'m StacksNetwork_scheme"
  senderKey :: string
  contractIdentifier :: string
  txNonce :: "int option"

text \<open>
  What \<open>broadcastTransaction\<close> resolves to: a transaction identifier or an error payload.
  The payload is kept as the text that \<open>toString()\<close> gives for it.
\<close>

datatype TxBroadcastResult = TxId string | ErrorPayload string

fun toString :: "TxBroadcastResult \<Rightarrow> string" where
  "toString (TxId s) = s"
| "toString (ErrorPayload p) = p"

text \<open>
  The collaborators of the command, which live outside this file: the address check and the
  transaction submission of the transactions library, the three network classes of the
  network library (each given by the object its constructor makes), and \<open>isNormalInteger\<close>
  and \<open>sendMany\<close> of the builder module. A thrown exception or rejected promise is \<open>Inl\<close>.
\<close>

record ('tx, 'm) env =
  validateStacksAddress :: "string \<Rightarrow> bool"
  isNormalInteger :: "string option \<Rightarrow> bool"
  StacksMainnet :: "'m StacksNetwork_scheme"
  StacksTestnet :: "'m StacksNetwork_scheme"
  StacksMocknet :: "'m StacksNetwork_scheme"
  sendMany :: "'m SendManyOptions \<Rightarrow> error + 'tx"
  serialize :: "'tx \<Rightarrow> 8 word list"
  broadcastTransaction :: "'tx \<Rightarrow> 'm StacksNetwork_scheme \<Rightarrow> error + TxBroadcastResult"

text \<open>
  What a run does to the outside, in order: the calls of \<open>sendMany\<close> and
  \<open>broadcastTransaction\<close>, and the lines written to standard output by \<open>this.log\<close> (with its
  arguments) and by \<open>console.log\<close>.
\<close>

datatype logarg = Str string | Res TxBroadcastResult

datatype ('tx, 'm) event =
    SendManyCall "'m SendManyOptions"
  | BroadcastCall 'tx "'m StacksNetwork_scheme"
  | Log "logarg list"
  | ConsoleLog string

subsection \<open>Constants\<close>

definition DEFAULT_TESTNET_CONTRACT :: string where
  "DEFAULT_TESTNET_CONTRACT = ''STB44HYPYAT2BB2QE513NSP81HTMYWBJP02HPGK6.send-many''"

definition DEFAULT_MAINNET_CONTRACT :: string where
  "DEFAULT_MAINNET_CONTRACT = ''not-deployed''"

subsection \<open>Strings and buffers of the runtime\<close>

text \<open>
  \<open>arg.split(',')\<close>: the pieces between the commas, all of them; a string without a comma
  gives one piece, the empty string gives one empty piece. The array is never empty, so the
  last case of the inner \<open>case\<close> does not arise.
\<close>

fun split_comma :: "string \<Rightarrow> string list" where
  "split_comma [] = [[]]"
| "split_comma (c # cs) =
     (if c = CHR '','' then [] # split_comma cs
      else (case split_comma cs of p # ps \<Rightarrow> (c # p) # ps | [] \<Rightarrow> [[c]]))"

text \<open>A template literal renders \<open>undefined\<close> as the word.\<close>

definition template :: "string option \<Rightarrow> string" where
  "template v = (case v of None \<Rightarrow> ''undefined'' | Some s \<Rightarrow> s)"

text \<open>\<open>Buffer.toString('hex')\<close>: two digits for each byte, high nibble first, letters in
  lower case.\<close>

definition hex_digit :: "nat \<Rightarrow> char" where
  "hex_digit n = ''0123456789abcdef'' ! n"

definition hex_byte :: "8 word \<Rightarrow> string" where
  "hex_byte b = [hex_digit (unat b div 16), hex_digit (unat b mod 16)]"

definition toString_hex :: "8 word list \<Rightarrow> string" where
  "toString_hex bs = concat (map hex_byte bs)"

definition is_lower_hex :: "char \<Rightarrow> bool" where
  "is_lower_hex c = (c \<in> set ''0123456789abcdef'')"

subsection \<open>The command\<close>

text \<open>\<open>getNetwork\<close>: the lookup of \<open>flags.network\<close> in the table of network classes.\<close>

definition getNetwork :: "('tx, 'm) env \<Rightarrow> flags \<Rightarrow> 'm StacksNetwork_scheme option" where
  "getNetwork env fl =
     map_of [(mainnet, StacksMainnet env), (testnet, StacksTestnet env),
             (mocknet, StacksMocknet env)] (network fl)"

definition getContract :: "'m StacksNetwork_scheme \<Rightarrow> string" where
  "getContract net =
     (if chainId net = Testnet then DEFAULT_TESTNET_CONTRACT else DEFAULT_MAINNET_CONTRACT)"

text \<open>
  The callback of \<open>argv.map\<close>. The destructuring \<open>[address, amount]\<close> takes the first two
  elements of the split array and drops the others.
\<close>

definition parse_recipient :: "('tx, 'm) env \<Rightarrow> string \<Rightarrow> error + Recipient" where
  "parse_recipient env arg =
     (case split_comma arg of
        [] \<Rightarrow> Inl (Error (template None @ '' is not a valid STX address''))
      | addr # rest \<Rightarrow>
          (let amt = (case rest of [] \<Rightarrow> None | a # _ \<Rightarrow> Some a) in
           if \<not> validateStacksAddress env addr
             then Inl (Error (addr @ '' is not a valid STX address''))
           else if \<not> isNormalInteger env amt
             then Inl (Error (template amt @ '' is not a valid integer.''))
           else Inr \<lparr>address = addr, amount = amt\<rparr>))"

text \<open>\<open>Array.prototype.map\<close> with a callback that may throw: the first exception ends it.\<close>

fun map_throw :: "('a \<Rightarrow> error + 'b) \<Rightarrow> 'a list \<Rightarrow> error + 'b list" where
  "map_throw f [] = Inr []"
| "map_throw f (x # xs) =
     (case f x of
        Inl e \<Rightarrow> Inl e
      | Inr y \<Rightarrow> (case map_throw f xs of Inl e \<Rightarrow> Inl e | Inr ys \<Rightarrow> Inr (y # ys)))"

text \<open>
  Lines 119 to 126 of \<open>run\<close>: the network object, with the endpoint override. The condition
  \<open>if (flags.nodeUrl)\<close> is false for \<open>undefined\<close> and for the empty string.
\<close>

definition resolveNetwork :: "('tx, 'm) env \<Rightarrow> flags \<Rightarrow> error + 'm StacksNetwork_scheme" where
  "resolveNetwork env fl =
     (case getNetwork env fl of
        None \<Rightarrow> Inl (Error ''Unable to get network'')
      | Some networkClass \<Rightarrow>
          Inr (case nodeUrl fl of
                 None \<Rightarrow> networkClass
               | Some u \<Rightarrow> if u \<noteq> [] then networkClass\<lparr>coreApiUrl := u\<rparr> else networkClass))"

text \<open>Lines 103 to 135 of \<open>run\<close>, up to the object that \<open>sendMany\<close> is called with.\<close>

definition prepare :: "('tx, 'm) env \<Rightarrow> string list \<Rightarrow> flags \<Rightarrow> error + 'm SendManyOptions" where
  "prepare env argv fl =
     (case map_throw (parse_recipient env) argv of
        Inl e \<Rightarrow> Inl e
      | Inr rs \<Rightarrow>
          (case resolveNetwork env fl of
             Inl e \<Rightarrow> Inl e
           | Inr net \<Rightarrow>
               Inr \<lparr>recipients = rs, txNetwork = net, senderKey = privateKey fl,
                    contractIdentifier = getContract net, txNonce = None\<rparr>))"

text \<open>
  Lines 137 to 157 of \<open>run\<close>: the events after the transaction is there, and the exception
  that ends the run, if any.
\<close>

definition report ::
  "('tx, 'm) env \<Rightarrow> flags \<Rightarrow> 'm StacksNetwork_scheme \<Rightarrow> 'tx \<Rightarrow> ('tx, 'm) event list \<times> error option"
where
  "report env fl net tx =
     (let hex = toString_hex (serialize env tx);
          out = (if verbose fl then [Log [Str ''Transaction hex:'', Str hex]] else [])
      in if broadcast fl then
           (case broadcastTransaction env tx net of
              Inl e \<Rightarrow> (out @ [BroadcastCall tx net], Some e)
            | Inr result \<Rightarrow>
                (out @ [BroadcastCall tx net] @
                   (if verbose fl then
                      [Log [Str ''Transaction ID:'', Res result],
                       Log [Str ''View in explorer:'',
                            Str ((''https://explorer.stacks.co/txid/0x'' @ toString result)
                                 @ ''?chain=''
                                 @ (if chainId net = Mainnet then ''mainnet'' else ''testnet''))]]
                    else [ConsoleLog (toString result)]),
                 None))
         else (out @ [ConsoleLog hex], None))"

text \<open>\<open>run\<close>: the events of the whole run, and the exception it ends with, if any.\<close>

definition run ::
  "('tx, 'm) env \<Rightarrow> string list \<Rightarrow> flags \<Rightarrow> ('tx, 'm) event list \<times> error option"
where
  "run env argv fl =
     (case prepare env argv fl of
        Inl e \<Rightarrow> ([], Some e)
      | Inr opts \<Rightarrow>
          (case sendMany env opts of
             Inl e \<Rightarrow> ([SendManyCall opts], Some e)
           | Inr tx \<Rightarrow>
               (let r = report env fl (txNetwork opts) tx
                in (SendManyCall opts # fst r, snd r))))"

text \<open>The lines of standard output among the events.\<close>

fun is_output :: "('tx, 'm) event \<Rightarrow> bool" where
  "is_output (Log _) = True"
| "is_output (ConsoleLog _) = True"
| "is_output _ = False"

definition stdout :: "('tx, 'm) event list \<Rightarrow> ('tx, 'm) event list" where
  "stdout evs = filter is_output evs"

fun is_broadcast :: "('tx, 'm) event \<Rightarrow> bool" where
  "is_broadcast (BroadcastCall _ _) = True"
| "is_broadcast _ = False"

subsection \<open>A concrete environment\<close>

text \<open>A decimal digit.\<close>

definition is_digit :: "char \<Rightarrow> bool" where
  "is_digit c = (c \<in> set ''0123456789'')"

text \<open>
  Modelled from the spec: \<open>isNormalInteger\<close> of the builder module, which is not among the
  sources. Section 8: the amount check accepts only strings of one or more decimal digits
  with no leading zero, unless the value is the single digit 0. An \<open>undefined\<close> amount is
  not such a string.
\<close>

definition isNormalInteger_spec :: "string option \<Rightarrow> bool" where
  "isNormalInteger_spec v =
     (case v of
        None \<Rightarrow> False
      | Some s \<Rightarrow>
          (case s of
             [] \<Rightarrow> False
           | c # cs \<Rightarrow> list_all is_digit s \<and> (cs = [] \<or> c \<noteq> CHR ''0'')))"

text \<open>
  An environment to run the command in: the address check accepts the two addresses of the
  usage example, the amount check is the one above, the three network objects have the chain
  identifiers of a production network and of two test networks, the transaction is its own
  byte sequence, and the node answers with a transaction identifier.
\<close>

definition sample_env :: "(8 word list, unit) env" where
  "sample_env =
     \<lparr>validateStacksAddress =
        (\<lambda>a. a \<in> set [''STADMRP577SC3MCNP7T3PRSTZBJ75FJ59JGABZTW'',
                       ''ST2WPFYAW85A0YK9ACJR8JGWPM19VWYF90J8P5ZTH'']),
      isNormalInteger = isNormalInteger_spec,
      StacksMainnet = \<lparr>chainId = Mainnet, coreApiUrl = ''https://mainnet.example''\<rparr>,
      StacksTestnet = \<lparr>chainId = Testnet, coreApiUrl = ''https://testnet.example''\<rparr>,
      StacksMocknet = \<lparr>chainId = Testnet, coreApiUrl = ''http://localhost:3999''\<rparr>,
      sendMany = (\<lambda>opts. Inr [0x80, 0x00, 0xAB, of_nat (length (recipients opts))]),
      serialize = (\<lambda>tx. tx),
      broadcastTransaction = (\<lambda>tx net. Inr (TxId ''5e1f7a''))\<rparr>"

text \<open>
  The same environment with a node that rejects the transaction: the submission resolves to
  the rejection object, whose \<open>toString()\<close> is that of a plain object.
\<close>

definition rejecting_env :: "(8 word list, unit) env" where
  "rejecting_env =
     sample_env\<lparr>broadcastTransaction := (\<lambda>tx net. Inr (ErrorPayload ''[object Object]''))\<rparr>"

text \<open>The same environment with a node that cannot be reached: the call throws.\<close>

definition unreachable_env :: "(8 word list, unit) env" where
  "unreachable_env =
     sample_env\<lparr>broadcastTransaction := (\<lambda>tx net. Inl (Error ''fetch failed''))\<rparr>"

text \<open>The flags of an invocation with \<open>-k key\<close> and nothing else: the defaults.\<close>

definition default_flags :: flags where
  "default_flags =
     \<lparr>privateKey = ''key'', broadcast = False, network = testnet, nodeUrl = None,
      verbose = False, contractAddress = None, nonce = None\<rparr>"

definition sample_argv :: "string list" where
  "sample_argv =
     [''STADMRP577SC3MCNP7T3PRSTZBJ75FJ59JGABZTW,100'',
      ''ST2WPFYAW85A0YK9ACJR8JGWPM19VWYF90J8P5ZTH,50'']"

section \<open>Properties\<close>

subsection \<open>Splitting, mapping and hexadecimal digits\<close>

lemma split_comma_nonempty: "split_comma s \<noteq> []"
  by (induction s) (auto split: list.splits)

lemma split_comma_takeWhile:
  "split_comma s =
     takeWhile (\<lambda>c. c \<noteq> CHR '','') s #
       (case dropWhile (\<lambda>c. c \<noteq> CHR '','') s of [] \<Rightarrow> [] | _ # r \<Rightarrow> split_comma r)"
  by (induction s) (auto split: list.splits)

lemma map_throw_length: "map_throw f xs = Inr ys \<Longrightarrow> length ys = length xs"
  by (induction xs arbitrary: ys) (auto split: sum.splits)

lemma hex_digit_lower: "n < 16 \<Longrightarrow> is_lower_hex (hex_digit n)"
  unfolding is_lower_hex_def hex_digit_def by (rule nth_mem) simp

lemma hex_byte_lower: "list_all is_lower_hex (hex_byte b)"
proof -
  have "unat b < 256" using unsigned_less [of b, where ?'a = nat] by simp
  then have "unat b div 16 < 16" by simp
  moreover have "unat b mod 16 < 16" by simp
  ultimately show ?thesis by (simp add: hex_byte_def hex_digit_lower)
qed

lemma toString_hex_lower: "list_all is_lower_hex (toString_hex bs)"
  by (induction bs) (simp_all add: toString_hex_def hex_byte_lower)

lemma toString_hex_length: "length (toString_hex bs) = 2 * length bs"
  by (induction bs) (simp_all add: toString_hex_def hex_byte_def)

subsection \<open>Unfolding the command\<close>

lemmas command_defs =
  run_def prepare_def report_def resolveNetwork_def getNetwork_def getContract_def
  parse_recipient_def template_def stdout_def
  DEFAULT_TESTNET_CONTRACT_def DEFAULT_MAINNET_CONTRACT_def

lemmas sample_defs =
  sample_env_def rejecting_env_def unreachable_env_def default_flags_def sample_argv_def
  isNormalInteger_spec_def is_digit_def toString_hex_def hex_byte_def hex_digit_def

subsection \<open>The flags that the command declares and never reads\<close>

text \<open>
  \<open>run\<close> reads \<open>privateKey\<close>, \<open>broadcast\<close>, \<open>network\<close>, \<open>nodeUrl\<close> and \<open>verbose\<close>. The flags
  \<open>contractAddress\<close> and \<open>nonce\<close> are declared and described in \<open>static flags\<close>, and no
  line of \<open>run\<close>, \<open>getNetwork\<close> or \<open>getContract\<close> mentions them: the run is the same for
  every value of either.
\<close>

lemma resolveNetwork_ignores:
  "resolveNetwork env (fl\<lparr>contractAddress := c\<rparr>) = resolveNetwork env fl"
  "resolveNetwork env (fl\<lparr>nonce := n\<rparr>) = resolveNetwork env fl"
  by (simp_all add: resolveNetwork_def getNetwork_def)

lemma prepare_ignores:
  "prepare env argv (fl\<lparr>contractAddress := c\<rparr>) = prepare env argv fl"
  "prepare env argv (fl\<lparr>nonce := n\<rparr>) = prepare env argv fl"
  by (simp_all add: prepare_def resolveNetwork_ignores cong: sum.case_cong)

lemma report_ignores:
  "report env (fl\<lparr>contractAddress := c\<rparr>) = report env fl"
  "report env (fl\<lparr>nonce := n\<rparr>) = report env fl"
  by (auto simp: report_def fun_eq_iff Let_def split: sum.splits)

lemma run_ignores_contractAddress:
  "run env argv (fl\<lparr>contractAddress := c\<rparr>) = run env argv fl"
  by (simp add: run_def prepare_ignores report_ignores cong: sum.case_cong)

lemma run_ignores_nonce:
  "run env argv (fl\<lparr>nonce := n\<rparr>) = run env argv fl"
  by (simp add: run_def prepare_ignores report_ignores cong: sum.case_cong)

text \<open>
  C1. Claim: when \<open>--contractAddress\<close> is supplied, the contract identifier used to assemble
  the transaction is the supplied string, whatever the network; the defaults are used only
  when the option is absent. The flag's description says the same (Manually specify the
  contract address for send-many. If omitted, default contracts will be used). The code does
  otherwise: \<open>run\<close> takes the identifier from \<open>getContract(network)\<close> alone. On the testnet,
  with \<open>-c ST2WPFYAW85A0YK9ACJR8JGWPM19VWYF90J8P5ZTH.my-send-many\<close>, \<open>sendMany\<close> is called
  with the testnet default.
\<close>

theorem contractAddress_flag_unused:
  "run sample_env sample_argv
     (default_flags\<lparr>contractAddress := Some ''ST2WPFYAW85A0YK9ACJR8JGWPM19VWYF90J8P5ZTH.my-send-many''\<rparr>) =
   ([SendManyCall
       \<lparr>recipients =
          [\<lparr>address = ''STADMRP577SC3MCNP7T3PRSTZBJ75FJ59JGABZTW'', amount = Some ''100''\<rparr>,
           \<lparr>address = ''ST2WPFYAW85A0YK9ACJR8JGWPM19VWYF90J8P5ZTH'', amount = Some ''50''\<rparr>],
        txNetwork = \<lparr>chainId = Testnet, coreApiUrl = ''https://testnet.example''\<rparr>,
        senderKey = ''key'',
        contractIdentifier = ''STB44HYPYAT2BB2QE513NSP81HTMYWBJP02HPGK6.send-many'',
        txNonce = None\<rparr>,
     ConsoleLog ''8000ab02''],
    None)"
  by (simp add: command_defs sample_defs)

text \<open>
  C2. Claim: when \<open>--nonce\<close> is supplied, the value is passed on to \<open>sendMany\<close>, so that the
  transaction uses it. The flag's description says the same (Optionally specify a nonce for
  this transaction). The code does otherwise: the object literal of the call has the keys
  \<open>recipients\<close>, \<open>network\<close>, \<open>senderKey\<close> and \<open>contractIdentifier\<close>, and no nonce. With
  \<open>--nonce 7\<close>, \<open>sendMany\<close> is called without a nonce.
\<close>

theorem nonce_flag_unused:
  "run sample_env sample_argv (default_flags\<lparr>nonce := Some 7\<rparr>) =
   ([SendManyCall
       \<lparr>recipients =
          [\<lparr>address = ''STADMRP577SC3MCNP7T3PRSTZBJ75FJ59JGABZTW'', amount = Some ''100''\<rparr>,
           \<lparr>address = ''ST2WPFYAW85A0YK9ACJR8JGWPM19VWYF90J8P5ZTH'', amount = Some ''50''\<rparr>],
        txNetwork = \<lparr>chainId = Testnet, coreApiUrl = ''https://testnet.example''\<rparr>,
        senderKey = ''key'',
        contractIdentifier = ''STB44HYPYAT2BB2QE513NSP81HTMYWBJP02HPGK6.send-many'',
        txNonce = None\<rparr>,
     ConsoleLog ''8000ab02''],
    None)"
  by (simp add: command_defs sample_defs)

subsection \<open>The recipient tokens\<close>

text \<open>
  C3, as stated, fails: the token is not split at its first comma only. The token
  \<open>STADMRP577SC3MCNP7T3PRSTZBJ75FJ59JGABZTW,100,extra\<close> is accepted, with the amount \<open>100\<close>;
  the amount handed to the check is not \<open>100,extra\<close>.
\<close>

theorem split_first_comma_counterexample:
  "parse_recipient sample_env ''STADMRP577SC3MCNP7T3PRSTZBJ75FJ59JGABZTW,100,extra'' =
     Inr \<lparr>address = ''STADMRP577SC3MCNP7T3PRSTZBJ75FJ59JGABZTW'', amount = Some ''100''\<rparr>"
  by (simp add: command_defs sample_defs)

text \<open>
  C3, amended: for every raw token, the address is the text before the first comma and the
  amount is the text between the first comma and the second (up to the end of the token when
  there is no second comma, and \<open>undefined\<close> when the token has no comma at all). What follows
  a second comma has no influence on the two checks or on the recipient.
\<close>

theorem parse_recipient_pieces:
  "parse_recipient env tok =
     (let addr = takeWhile (\<lambda>c. c \<noteq> CHR '','') tok;
          amt = (case dropWhile (\<lambda>c. c \<noteq> CHR '','') tok of
                   [] \<Rightarrow> None
                 | _ # r \<Rightarrow> Some (takeWhile (\<lambda>c. c \<noteq> CHR '','') r))
      in if \<not> validateStacksAddress env addr
           then Inl (Error (addr @ '' is not a valid STX address''))
         else if \<not> isNormalInteger env amt
           then Inl (Error (template amt @ '' is not a valid integer.''))
         else Inr \<lparr>address = addr, amount = amt\<rparr>)"
proof -
  let ?P = "\<lambda>c. c \<noteq> CHR '',''"
  have unfold_split: "split_comma s =
      takeWhile ?P s # (case dropWhile ?P s of [] \<Rightarrow> [] | _ # r \<Rightarrow> split_comma r)" for s
    by (rule split_comma_takeWhile)
  show ?thesis
  proof (cases "dropWhile ?P tok")
    case Nil
    have "split_comma tok = [takeWhile ?P tok]"
      by (subst unfold_split) (simp only: Nil list.case)
    then show ?thesis
      by (simp only: parse_recipient_def Nil list.case Let_def)
  next
    case (Cons d r)
    have "split_comma tok = takeWhile ?P tok # split_comma r"
      by (subst unfold_split) (simp only: Cons list.case)
    also have "split_comma r = takeWhile ?P r #
        (case dropWhile ?P r of [] \<Rightarrow> [] | _ # r' \<Rightarrow> split_comma r')"
      by (rule unfold_split)
    finally show ?thesis
      by (simp only: parse_recipient_def Cons list.case Let_def)
  qed
qed

text \<open>The amended C3 at a token without a comma: the amount is \<open>undefined\<close>.\<close>

theorem parse_recipient_pieces_witness:
  "parse_recipient sample_env ''STADMRP577SC3MCNP7T3PRSTZBJ75FJ59JGABZTW'' =
     Inl (Error ''undefined is not a valid integer.'')"
  using parse_recipient_pieces [of sample_env "''STADMRP577SC3MCNP7T3PRSTZBJ75FJ59JGABZTW''"]
  by (simp add: sample_defs template_def)

subsection \<open>Broadcasting\<close>

text \<open>
  For every broadcast run whose transaction was assembled, the submission is attempted
  exactly once, and a submission that throws ends the run with the thrown error, after the
  hexadecimal line of a verbose run and nothing else.
\<close>

lemma broadcast_attempted_once:
  assumes "prepare env argv fl = Inr opts" and "sendMany env opts = Inr tx"
    and "broadcast fl"
  shows "filter is_broadcast (fst (run env argv fl)) = [BroadcastCall tx (txNetwork opts)]"
  using assms by (simp add: run_def report_def Let_def split: sum.splits)

lemma broadcast_throw_ends_run:
  assumes "prepare env argv fl = Inr opts" and "sendMany env opts = Inr tx"
    and "broadcast fl" and "broadcastTransaction env tx (txNetwork opts) = Inl e"
  shows "snd (run env argv fl) = Some e \<and>
         stdout (fst (run env argv fl)) =
           (if verbose fl
            then [Log [Str ''Transaction hex:'', Str (toString_hex (serialize env tx))]]
            else [])"
  using assms by (simp add: run_def report_def stdout_def Let_def)

lemma broadcast_throw_example:
  "run unreachable_env sample_argv (default_flags\<lparr>broadcast := True\<rparr>) =
   ([SendManyCall
       \<lparr>recipients =
          [\<lparr>address = ''STADMRP577SC3MCNP7T3PRSTZBJ75FJ59JGABZTW'', amount = Some ''100''\<rparr>,
           \<lparr>address = ''ST2WPFYAW85A0YK9ACJR8JGWPM19VWYF90J8P5ZTH'', amount = Some ''50''\<rparr>],
        txNetwork = \<lparr>chainId = Testnet, coreApiUrl = ''https://testnet.example''\<rparr>,
        senderKey = ''key'',
        contractIdentifier = ''STB44HYPYAT2BB2QE513NSP81HTMYWBJP02HPGK6.send-many'',
        txNonce = None\<rparr>,
     BroadcastCall [0x80, 0x00, 0xAB, 0x02]
       \<lparr>chainId = Testnet, coreApiUrl = ''https://testnet.example''\<rparr>],
    Some (Error ''fetch failed''))"
  by (simp add: command_defs sample_defs)

text \<open>
  C4. Claim: when the node submission yields an error result, the run fails with a
  broadcast error that carries the node's rejection reason, and the error payload is not
  printed as the success output; the submission is not retried. The code misses the case of
  a rejection that the submission returns: lines 142 to 153 never look at \<open>result\<close>. With
  \<open>-b -v\<close> the rejection object is printed under the code's own label \<open>Transaction ID:\<close>
  and the explorer link is built from it,
  \<open>https://explorer.stacks.co/txid/0x[object Object]?chain=testnet\<close>; with \<open>-b\<close> alone
  \<open>[object Object]\<close> is printed as the result. Both runs end without an exception.
\<close>

theorem broadcast_rejection_printed_as_txid:
  "broadcastTransaction rejecting_env [0x80, 0x00, 0xAB, 0x02]
      \<lparr>chainId = Testnet, coreApiUrl = ''https://testnet.example''\<rparr> =
     Inr (ErrorPayload ''[object Object]'') \<and>
   run rejecting_env sample_argv (default_flags\<lparr>broadcast := True, verbose := True\<rparr>) =
   ([SendManyCall
       \<lparr>recipients =
          [\<lparr>address = ''STADMRP577SC3MCNP7T3PRSTZBJ75FJ59JGABZTW'', amount = Some ''100''\<rparr>,
           \<lparr>address = ''ST2WPFYAW85A0YK9ACJR8JGWPM19VWYF90J8P5ZTH'', amount = Some ''50''\<rparr>],
        txNetwork = \<lparr>chainId = Testnet, coreApiUrl = ''https://testnet.example''\<rparr>,
        senderKey = ''key'',
        contractIdentifier = ''STB44HYPYAT2BB2QE513NSP81HTMYWBJP02HPGK6.send-many'',
        txNonce = None\<rparr>,
     Log [Str ''Transaction hex:'', Str ''8000ab02''],
     BroadcastCall [0x80, 0x00, 0xAB, 0x02]
       \<lparr>chainId = Testnet, coreApiUrl = ''https://testnet.example''\<rparr>,
     Log [Str ''Transaction ID:'', Res (ErrorPayload ''[object Object]'')],
     Log [Str ''View in explorer:'',
          Str ''https://explorer.stacks.co/txid/0x[object Object]?chain=testnet'']],
    None) \<and>
   run rejecting_env sample_argv (default_flags\<lparr>broadcast := True\<rparr>) =
   ([SendManyCall
       \<lparr>recipients =
          [\<lparr>address = ''STADMRP577SC3MCNP7T3PRSTZBJ75FJ59JGABZTW'', amount = Some ''100''\<rparr>,
           \<lparr>address = ''ST2WPFYAW85A0YK9ACJR8JGWPM19VWYF90J8P5ZTH'', amount = Some ''50''\<rparr>],
        txNetwork = \<lparr>chainId = Testnet, coreApiUrl = ''https://testnet.example''\<rparr>,
        senderKey = ''key'',
        contractIdentifier = ''STB44HYPYAT2BB2QE513NSP81HTMYWBJP02HPGK6.send-many'',
        txNonce = None\<rparr>,
     BroadcastCall [0x80, 0x00, 0xAB, 0x02]
       \<lparr>chainId = Testnet, coreApiUrl = ''https://testnet.example''\<rparr>,
     ConsoleLog ''[object Object]''],
    None)"
  by (simp add: command_defs sample_defs)

subsection \<open>The request handed to the assembler\<close>

lemma getNetwork_total: "\<exists>n. getNetwork env fl = Some n"
  by (cases "network fl") (simp_all add: getNetwork_def)

lemma getNetwork_ignores_nodeUrl: "getNetwork env (fl\<lparr>nodeUrl := v\<rparr>) = getNetwork env fl"
  by (simp add: getNetwork_def)

lemma resolveNetwork_total: "\<exists>n. resolveNetwork env fl = Inr n"
  using getNetwork_total [of env fl] by (auto simp: resolveNetwork_def)

lemma prepare_recipients_length:
  "prepare env argv fl = Inr opts \<Longrightarrow> length (recipients opts) = length argv"
  by (auto simp: prepare_def dest: map_throw_length split: sum.splits)

lemma run_SendManyCall:
  "SendManyCall opts \<in> set (fst (run env argv fl)) \<Longrightarrow> prepare env argv fl = Inr opts"
  by (auto simp: run_def report_def Let_def split: sum.splits if_splits)

text \<open>
  C5, as stated, fails: a positional token is not required. The argument \<open>recipient\<close> is
  not declared \<open>required\<close>, and with no token \<open>argv.map\<close> gives the empty array, which
  \<open>sendMany\<close> is called with.
\<close>

theorem empty_recipients_counterexample:
  "run sample_env [] default_flags =
   ([SendManyCall
       \<lparr>recipients = [],
        txNetwork = \<lparr>chainId = Testnet, coreApiUrl = ''https://testnet.example''\<rparr>,
        senderKey = ''key'',
        contractIdentifier = ''STB44HYPYAT2BB2QE513NSP81HTMYWBJP02HPGK6.send-many'',
        txNonce = None\<rparr>,
     ConsoleLog ''8000ab00''],
    None)"
  by (simp add: command_defs sample_defs)

text \<open>
  C5, amended: whenever the assembler is invoked, the recipients list it is handed has
  exactly one entry for each positional token, so it is non-empty exactly when at least one
  token was supplied. No token is required: with none, the assembler is invoked with the
  empty list.
\<close>

theorem recipients_one_per_token:
  assumes "SendManyCall opts \<in> set (fst (run env argv fl))"
  shows "length (recipients opts) = length argv \<and> (recipients opts = []) = (argv = []) \<and>
         (\<exists>opts0. recipients opts0 = [] \<and> hd (fst (run env [] fl)) = SendManyCall opts0)"
proof -
  from assms have "prepare env argv fl = Inr opts" by (rule run_SendManyCall)
  then have "length (recipients opts) = length argv" by (rule prepare_recipients_length)
  then have a: "length (recipients opts) = length argv \<and> (recipients opts = []) = (argv = [])"
    by auto
  obtain n where "resolveNetwork env fl = Inr n"
    using resolveNetwork_total by blast
  then have "prepare env [] fl =
      Inr \<lparr>recipients = [], txNetwork = n, senderKey = privateKey fl,
           contractIdentifier = getContract n, txNonce = None\<rparr>"
    by (simp add: prepare_def)
  then have "hd (fst (run env [] fl)) =
      SendManyCall \<lparr>recipients = [], txNetwork = n, senderKey = privateKey fl,
           contractIdentifier = getContract n, txNonce = None\<rparr>"
    by (simp add: run_def Let_def split: sum.splits)
  then have "\<exists>opts0. recipients opts0 = [] \<and> hd (fst (run env [] fl)) = SendManyCall opts0"
    by (intro exI [of _ "\<lparr>recipients = [], txNetwork = n, senderKey = privateKey fl,
           contractIdentifier = getContract n, txNonce = None\<rparr>"]) simp
  with a show ?thesis by blast
qed

text \<open>The amended C5 at the two tokens of the usage example.\<close>

theorem recipients_one_per_token_witness:
  "SendManyCall
       \<lparr>recipients =
          [\<lparr>address = ''STADMRP577SC3MCNP7T3PRSTZBJ75FJ59JGABZTW'', amount = Some ''100''\<rparr>,
           \<lparr>address = ''ST2WPFYAW85A0YK9ACJR8JGWPM19VWYF90J8P5ZTH'', amount = Some ''50''\<rparr>],
        txNetwork = \<lparr>chainId = Testnet, coreApiUrl = ''https://testnet.example''\<rparr>,
        senderKey = ''key'',
        contractIdentifier = ''STB44HYPYAT2BB2QE513NSP81HTMYWBJP02HPGK6.send-many'',
        txNonce = None\<rparr>
     \<in> set (fst (run sample_env sample_argv default_flags)) \<and>
   length sample_argv = 2"
proof -
  let ?opts = "\<lparr>recipients =
          [\<lparr>address = ''STADMRP577SC3MCNP7T3PRSTZBJ75FJ59JGABZTW'', amount = Some ''100''\<rparr>,
           \<lparr>address = ''ST2WPFYAW85A0YK9ACJR8JGWPM19VWYF90J8P5ZTH'', amount = Some ''50''\<rparr>],
        txNetwork = \<lparr>chainId = Testnet, coreApiUrl = ''https://testnet.example''\<rparr>,
        senderKey = ''key'',
        contractIdentifier = ''STB44HYPYAT2BB2QE513NSP81HTMYWBJP02HPGK6.send-many'',
        txNonce = None\<rparr> :: unit SendManyOptions"
  have m: "SendManyCall ?opts \<in> set (fst (run sample_env sample_argv default_flags))"
    by (simp add: command_defs sample_defs)
  from recipients_one_per_token [OF m] m show ?thesis by simp
qed

subsection \<open>The contract and the network\<close>

text \<open>
  C6. With no explicit contract identifier, the contract is a function of the chain
  identifier alone: \<open>Testnet\<close> gives \<open>STB44HYPYAT2BB2QE513NSP81HTMYWBJP02HPGK6.send-many\<close>,
  any other chain identifier gives the mainnet placeholder \<open>not-deployed\<close>; and that is the
  identifier in the object handed to \<open>sendMany\<close>.
\<close>

theorem getContract_by_chainId:
  "getContract net =
     (if chainId net = Testnet then ''STB44HYPYAT2BB2QE513NSP81HTMYWBJP02HPGK6.send-many''
      else ''not-deployed'') \<and>
   (chainId net = chainId net' \<longrightarrow> getContract net = getContract net') \<and>
   (contractAddress fl = None \<and> prepare env argv fl = Inr opts \<longrightarrow>
      contractIdentifier opts = getContract (txNetwork opts))"
  by (auto simp: getContract_def DEFAULT_TESTNET_CONTRACT_def DEFAULT_MAINNET_CONTRACT_def
        prepare_def split: sum.splits)

text \<open>C6 on the mainnet and on a test network.\<close>

theorem getContract_by_chainId_witness:
  "contractAddress (default_flags\<lparr>network := mainnet\<rparr>) = None \<and>
   prepare sample_env sample_argv (default_flags\<lparr>network := mainnet\<rparr>) =
     Inr \<lparr>recipients =
            [\<lparr>address = ''STADMRP577SC3MCNP7T3PRSTZBJ75FJ59JGABZTW'', amount = Some ''100''\<rparr>,
             \<lparr>address = ''ST2WPFYAW85A0YK9ACJR8JGWPM19VWYF90J8P5ZTH'', amount = Some ''50''\<rparr>],
          txNetwork = \<lparr>chainId = Mainnet, coreApiUrl = ''https://mainnet.example''\<rparr>,
          senderKey = ''key'',
          contractIdentifier = ''not-deployed'',
          txNonce = None\<rparr> \<and>
   getContract \<lparr>chainId = Testnet, coreApiUrl = ''http://localhost:3999''\<rparr> =
     ''STB44HYPYAT2BB2QE513NSP81HTMYWBJP02HPGK6.send-many'' \<and>
   getContract \<lparr>chainId = Mainnet, coreApiUrl = ''https://mainnet.example''\<rparr> = ''not-deployed'' \<and>
   chainId (StacksTestnet sample_env) = chainId (StacksMocknet sample_env) \<and>
   getContract (StacksTestnet sample_env) = getContract (StacksMocknet sample_env)"
  using getContract_by_chainId [where net = "StacksTestnet sample_env"
      and net' = "StacksMocknet sample_env"]
    getContract_by_chainId [where net = "\<lparr>chainId = Testnet, coreApiUrl = ''http://localhost:3999''\<rparr>"]
    getContract_by_chainId [where net = "\<lparr>chainId = Mainnet, coreApiUrl = ''https://mainnet.example''\<rparr>"
      and fl = "default_flags\<lparr>network := mainnet\<rparr>" and env = sample_env
      and argv = sample_argv]
  by (simp add: command_defs sample_defs)

text \<open>
  C7. For every network name and every \<open>--nodeUrl\<close> value, the network object with the
  override is the one without it, but for the field \<open>coreApiUrl\<close>; the chain identifier is
  the same. (An empty override is falsy and changes nothing.) The same holds of the whole
  object handed to \<open>sendMany\<close>.
\<close>

theorem nodeUrl_overrides_endpoint_only:
  "(\<exists>n0 n1.
      resolveNetwork env (fl\<lparr>nodeUrl := None\<rparr>) = Inr n0 \<and>
      resolveNetwork env (fl\<lparr>nodeUrl := Some u\<rparr>) = Inr n1 \<and>
      chainId n1 = chainId n0 \<and>
      n1 = n0\<lparr>coreApiUrl := coreApiUrl n1\<rparr> \<and>
      coreApiUrl n1 = (if u = [] then coreApiUrl n0 else u)) \<and>
   (prepare env argv (fl\<lparr>nodeUrl := None\<rparr>) = Inr o0 \<and>
    prepare env argv (fl\<lparr>nodeUrl := Some u\<rparr>) = Inr o1 \<longrightarrow>
      chainId (txNetwork o1) = chainId (txNetwork o0) \<and>
      o1 = o0\<lparr>txNetwork := (txNetwork o0)\<lparr>coreApiUrl := coreApiUrl (txNetwork o1)\<rparr>\<rparr>)"
proof -
  obtain n where n: "getNetwork env fl = Some n"
    using getNetwork_total by blast
  have r0: "resolveNetwork env (fl\<lparr>nodeUrl := None\<rparr>) = Inr n"
    by (simp add: resolveNetwork_def getNetwork_ignores_nodeUrl n)
  have r1: "resolveNetwork env (fl\<lparr>nodeUrl := Some u\<rparr>) =
      Inr (if u = [] then n else n\<lparr>coreApiUrl := u\<rparr>)"
    by (simp add: resolveNetwork_def getNetwork_ignores_nodeUrl n)
  have a: "\<exists>n0 n1.
      resolveNetwork env (fl\<lparr>nodeUrl := None\<rparr>) = Inr n0 \<and>
      resolveNetwork env (fl\<lparr>nodeUrl := Some u\<rparr>) = Inr n1 \<and>
      chainId n1 = chainId n0 \<and>
      n1 = n0\<lparr>coreApiUrl := coreApiUrl n1\<rparr> \<and>
      coreApiUrl n1 = (if u = [] then coreApiUrl n0 else u)"
    unfolding r0 r1 by simp
  have b: "chainId (txNetwork o1) = chainId (txNetwork o0) \<and>
      o1 = o0\<lparr>txNetwork := (txNetwork o0)\<lparr>coreApiUrl := coreApiUrl (txNetwork o1)\<rparr>\<rparr>"
    if "prepare env argv (fl\<lparr>nodeUrl := None\<rparr>) = Inr o0"
      and "prepare env argv (fl\<lparr>nodeUrl := Some u\<rparr>) = Inr o1"
    using that unfolding prepare_def r0 r1
    by (auto simp: getContract_def split: sum.splits)
  from a b show ?thesis by blast
qed


text \<open>C7 on the mocknet with another node.\<close>

theorem nodeUrl_overrides_endpoint_only_witness:
  "prepare sample_env sample_argv (default_flags\<lparr>network := mocknet, nodeUrl := None\<rparr>) =
     Inr \<lparr>recipients =
            [\<lparr>address = ''STADMRP577SC3MCNP7T3PRSTZBJ75FJ59JGABZTW'', amount = Some ''100''\<rparr>,
             \<lparr>address = ''ST2WPFYAW85A0YK9ACJR8JGWPM19VWYF90J8P5ZTH'', amount = Some ''50''\<rparr>],
          txNetwork = \<lparr>chainId = Testnet, coreApiUrl = ''http://localhost:3999''\<rparr>,
          senderKey = ''key'',
          contractIdentifier = ''STB44HYPYAT2BB2QE513NSP81HTMYWBJP02HPGK6.send-many'',
          txNonce = None\<rparr> \<and>
   prepare sample_env sample_argv
       (default_flags\<lparr>network := mocknet, nodeUrl := Some ''http://node.example:20443''\<rparr>) =
     Inr \<lparr>recipients =
            [\<lparr>address = ''STADMRP577SC3MCNP7T3PRSTZBJ75FJ59JGABZTW'', amount = Some ''100''\<rparr>,
             \<lparr>address = ''ST2WPFYAW85A0YK9ACJR8JGWPM19VWYF90J8P5ZTH'', amount = Some ''50''\<rparr>],
          txNetwork = \<lparr>chainId = Testnet, coreApiUrl = ''http://node.example:20443''\<rparr>,
          senderKey = ''key'',
          contractIdentifier = ''STB44HYPYAT2BB2QE513NSP81HTMYWBJP02HPGK6.send-many'',
          txNonce = None\<rparr>"
  using nodeUrl_overrides_endpoint_only
    [where env = sample_env and fl = "default_flags\<lparr>network := mocknet\<rparr>"
       and u = "''http://node.example:20443''" and argv = sample_argv]
  by (simp add: command_defs sample_defs)

subsection \<open>The output\<close>

lemma lower_hex_not_newline: "is_lower_hex c \<Longrightarrow> c \<noteq> CHR 0x0A"
  by (auto simp: is_lower_hex_def)

lemma toString_hex_one_line: "CHR 0x0A \<notin> set (toString_hex bs)"
  using toString_hex_lower [of bs] lower_hex_not_newline
  by (auto simp: list_all_iff)

text \<open>
  C8. A run that succeeds with broadcasting and verbosity off writes exactly one line to
  standard output: the serialized transaction in hexadecimal digits, letters in lower case.
\<close>

theorem plain_run_prints_hex_only:
  assumes "\<not> broadcast fl" and "\<not> verbose fl" and "snd (run env argv fl) = None"
  shows "\<exists>opts tx.
           prepare env argv fl = Inr opts \<and> sendMany env opts = Inr tx \<and>
           stdout (fst (run env argv fl)) = [ConsoleLog (toString_hex (serialize env tx))] \<and>
           list_all is_lower_hex (toString_hex (serialize env tx)) \<and>
           CHR 0x0A \<notin> set (toString_hex (serialize env tx))"
  using assms
  by (auto simp: run_def report_def stdout_def Let_def toString_hex_lower toString_hex_one_line
        split: sum.splits)

text \<open>C8 at the usage example.\<close>

theorem plain_run_prints_hex_only_witness:
  "\<not> broadcast default_flags \<and> \<not> verbose default_flags \<and>
   snd (run sample_env sample_argv default_flags) = None \<and>
   stdout (fst (run sample_env sample_argv default_flags)) = [ConsoleLog ''8000ab02'']"
  using plain_run_prints_hex_only [of default_flags sample_env sample_argv]
  by (simp add: command_defs sample_defs)

text \<open>
  C9. In every run with verbosity on, the labelled line \<open>Transaction hex:\<close> stands before
  any call of \<open>broadcastTransaction\<close>. Once the transaction is assembled the line is the
  first one written, whether or not broadcasting is requested and whatever the submission
  does; when the submission throws, the line is still in the output of the failed run.
\<close>

theorem verbose_hex_line_first:
  assumes "verbose fl"
  shows "(fst (run env argv fl) = pre @ BroadcastCall tx net # post \<longrightarrow>
            Log [Str ''Transaction hex:'', Str (toString_hex (serialize env tx))] \<in> set pre) \<and>
         (prepare env argv fl = Inr opts \<and> sendMany env opts = Inr tx' \<longrightarrow>
            (\<exists>rest. stdout (fst (run env argv fl)) =
               Log [Str ''Transaction hex:'', Str (toString_hex (serialize env tx'))] # rest) \<and>
            (broadcast fl \<and> broadcastTransaction env tx' (txNetwork opts) = Inl e \<longrightarrow>
               run env argv fl =
                 ([SendManyCall opts,
                   Log [Str ''Transaction hex:'', Str (toString_hex (serialize env tx'))],
                   BroadcastCall tx' (txNetwork opts)],
                  Some e)))"
proof -
  have a: "Log [Str ''Transaction hex:'', Str (toString_hex (serialize env tx))] \<in> set pre"
    if "fst (run env argv fl) = pre @ BroadcastCall tx net # post"
    using that assms
    by (auto simp: run_def report_def Let_def Cons_eq_append_conv
          split: sum.splits if_splits)
  have b: "\<exists>rest. stdout (fst (run env argv fl)) =
               Log [Str ''Transaction hex:'', Str (toString_hex (serialize env tx'))] # rest"
    if "prepare env argv fl = Inr opts" and "sendMany env opts = Inr tx'"
    using that assms
    by (auto simp: run_def report_def stdout_def Let_def split: sum.splits)
  have c: "run env argv fl =
                 ([SendManyCall opts,
                   Log [Str ''Transaction hex:'', Str (toString_hex (serialize env tx'))],
                   BroadcastCall tx' (txNetwork opts)],
                  Some e)"
    if "prepare env argv fl = Inr opts" and "sendMany env opts = Inr tx'"
      and "broadcast fl" and "broadcastTransaction env tx' (txNetwork opts) = Inl e"
    using that assms
    by (simp add: run_def report_def Let_def)
  from a b c show ?thesis by blast
qed

text \<open>C9 at a node that cannot be reached.\<close>

theorem verbose_hex_line_first_witness:
  "verbose (default_flags\<lparr>verbose := True, broadcast := True\<rparr>) \<and>
   run unreachable_env sample_argv (default_flags\<lparr>verbose := True, broadcast := True\<rparr>) =
   ([SendManyCall
       \<lparr>recipients =
          [\<lparr>address = ''STADMRP577SC3MCNP7T3PRSTZBJ75FJ59JGABZTW'', amount = Some ''100''\<rparr>,
           \<lparr>address = ''ST2WPFYAW85A0YK9ACJR8JGWPM19VWYF90J8P5ZTH'', amount = Some ''50''\<rparr>],
        txNetwork = \<lparr>chainId = Testnet, coreApiUrl = ''https://testnet.example''\<rparr>,
        senderKey = ''key'',
        contractIdentifier = ''STB44HYPYAT2BB2QE513NSP81HTMYWBJP02HPGK6.send-many'',
        txNonce = None\<rparr>,
     Log [Str ''Transaction hex:'', Str ''8000ab02''],
     BroadcastCall [0x80, 0x00, 0xAB, 0x02]
       \<lparr>chainId = Testnet, coreApiUrl = ''https://testnet.example''\<rparr>],
    Some (Error ''fetch failed''))"
  using verbose_hex_line_first
    [where fl = "default_flags\<lparr>verbose := True, broadcast := True\<rparr>"
       and env = unreachable_env and argv = sample_argv]
  by (simp add: command_defs sample_defs)

text \<open>
  C10. The network classes belong to the network library, so the object that
  \<open>new StacksMocknet()\<close> makes is a parameter here. When it carries the chain identifier
  \<open>Testnet\<close>, every invocation with the network name \<open>mocknet\<close> and no explicit contract
  identifier resolves to a network with the chain identifier \<open>Testnet\<close> (with or without an
  endpoint override), the contract is the testnet default, and the explorer link of a verbose
  broadcast run ends with \<open>chain=testnet\<close>.
\<close>

theorem mocknet_is_testnet:
  assumes "chainId (StacksMocknet env) = Testnet" and "network fl = mocknet"
    and "contractAddress fl = None" and "prepare env argv fl = Inr opts"
  shows "chainId (txNetwork opts) = Testnet \<and>
         contractIdentifier opts = ''STB44HYPYAT2BB2QE513NSP81HTMYWBJP02HPGK6.send-many'' \<and>
         (verbose fl \<and> broadcast fl \<and> sendMany env opts = Inr tx \<and>
          broadcastTransaction env tx (txNetwork opts) = Inr result \<longrightarrow>
            snd (run env argv fl) = None \<and>
            last (fst (run env argv fl)) =
              Log [Str ''View in explorer:'',
                   Str ((''https://explorer.stacks.co/txid/0x'' @ toString result) @
                        ''?chain=testnet'')])"
proof -
  from assms(2) have g: "getNetwork env fl = Some (StacksMocknet env)"
    by (simp add: getNetwork_def)
  from assms(4) have n: "resolveNetwork env fl = Inr (txNetwork opts)"
    and c: "contractIdentifier opts = getContract (txNetwork opts)"
    by (auto simp: prepare_def split: sum.splits)
  from n g have "txNetwork opts =
      (case nodeUrl fl of
         None \<Rightarrow> StacksMocknet env
       | Some u \<Rightarrow> if u \<noteq> [] then (StacksMocknet env)\<lparr>coreApiUrl := u\<rparr>
                  else StacksMocknet env)"
    by (simp add: resolveNetwork_def)
  then have "chainId (txNetwork opts) = chainId (StacksMocknet env)"
    by (simp split: option.splits)
  with assms(1) have t: "chainId (txNetwork opts) = Testnet"
    by simp
  with c have d: "contractIdentifier opts = ''STB44HYPYAT2BB2QE513NSP81HTMYWBJP02HPGK6.send-many''"
    by (simp add: getContract_def DEFAULT_TESTNET_CONTRACT_def)
  have l: "snd (run env argv fl) = None \<and>
      last (fst (run env argv fl)) =
              Log [Str ''View in explorer:'',
                   Str ((''https://explorer.stacks.co/txid/0x'' @ toString result) @
                        ''?chain=testnet'')]"
    if "verbose fl" and "broadcast fl" and "sendMany env opts = Inr tx"
      and "broadcastTransaction env tx (txNetwork opts) = Inr result"
    using that assms(4) t by (simp add: run_def report_def Let_def)
  from t d l show ?thesis by blast
qed

text \<open>C10 at the usage example.\<close>

theorem mocknet_is_testnet_witness:
  "chainId (StacksMocknet sample_env) = Testnet \<and>
   run sample_env sample_argv
     (default_flags\<lparr>network := mocknet, verbose := True, broadcast := True\<rparr>) =
   ([SendManyCall
       \<lparr>recipients =
          [\<lparr>address = ''STADMRP577SC3MCNP7T3PRSTZBJ75FJ59JGABZTW'', amount = Some ''100''\<rparr>,
           \<lparr>address = ''ST2WPFYAW85A0YK9ACJR8JGWPM19VWYF90J8P5ZTH'', amount = Some ''50''\<rparr>],
        txNetwork = \<lparr>chainId = Testnet, coreApiUrl = ''http://localhost:3999''\<rparr>,
        senderKey = ''key'',
        contractIdentifier = ''STB44HYPYAT2BB2QE513NSP81HTMYWBJP02HPGK6.send-many'',
        txNonce = None\<rparr>,
     Log [Str ''Transaction hex:'', Str ''8000ab02''],
     BroadcastCall [0x80, 0x00, 0xAB, 0x02]
       \<lparr>chainId = Testnet, coreApiUrl = ''http://localhost:3999''\<rparr>,
     Log [Str ''Transaction ID:'', Res (TxId ''5e1f7a'')],
     Log [Str ''View in explorer:'',
          Str ''https://explorer.stacks.co/txid/0x5e1f7a?chain=testnet'']],
    None)"
  using mocknet_is_testnet
    [where env = sample_env and argv = sample_argv
       and fl = "default_flags\<lparr>network := mocknet, verbose := True, broadcast := True\<rparr>"]
  by (simp add: command_defs sample_defs)

end
